theory Spec2Isabelle
  imports Complex_Main
begin

section \<open>Text chunking and embedding retrieval (genaikit.nlp.processors)\<close>

text \<open>
  A shallow embedding of \<^verbatim>\<open>src/genaikit/nlp/processors.py\<close>. The external
  collaborators are parameters of the model:
  \<^item> \<open>encode\<close>: the tokenizer (\<^verbatim>\<open>encoding.encode\<close>), from a text to its tokens;
    only the number of tokens is used;
  \<^item> \<open>sents\<close>: the sentence-boundary detector behind \<^verbatim>\<open>self.nlp(text).sents\<close>;
  \<^item> \<open>nlp\<close>, \<open>doc_text\<close>, \<open>similarity\<close>: the parser, the text of a parsed
    document and the similarity of two parsed documents;
  \<^item> \<open>service\<close>: the embedding service, from a text and the number of the attempt
    to a vector or an error.
  Python strings are \<open>string\<close>, Python integers are \<open>int\<close>, the similarity and
  the threshold, floats in the source, are real numbers, and every exception the code
  can raise is a value of \<open>error\<close>.
\<close>

subsection \<open>Strings\<close>

text \<open>\<^verbatim>\<open>sep.join(xs)\<close>: the separator stands between neighbours only.\<close>

fun str_join :: "string \<Rightarrow> string list \<Rightarrow> string" where
  "str_join sep [] = []"
| "str_join sep [x] = x"
| "str_join sep (x # y # ys) = x @ sep @ str_join sep (y # ys)"

subsection \<open>The token-bounded chunker of \<^verbatim>\<open>TextProcessor.to_chunks\<close>\<close>

text \<open>
  The loop of lines 45 to 55, one equation per iteration. The arguments \<open>chunks\<close>,
  \<open>tokens\<close>, \<open>current_chunk\<close> and \<open>current_tokens\<close> are the local variables of the
  source. The last argument \<open>members\<close> is not in the source: it records, for every
  chunk the loop emits, the list \<open>current_chunk\<close> the chunk was joined from, so that
  a statement can speak of the member sentences of a chunk.
\<close>

fun to_chunks_loop ::
  "(string \<Rightarrow> 'tok list) \<Rightarrow> int \<Rightarrow> string list \<Rightarrow>
   string list \<Rightarrow> int list \<Rightarrow> string list \<Rightarrow> int \<Rightarrow> string list list \<Rightarrow>
   string list \<times> int list \<times> string list \<times> int \<times> string list list" where
  "to_chunks_loop encode max_tokens [] chunks tokens current_chunk current_tokens members =
     (chunks, tokens, current_chunk, current_tokens, members)"
| "to_chunks_loop encode max_tokens (sentence # rest) chunks tokens current_chunk current_tokens members =
     (let encoded_text = encode (sentence @ '' '') in
      if current_tokens + int (length encoded_text) \<le> max_tokens
      then to_chunks_loop encode max_tokens rest chunks tokens
             (current_chunk @ [sentence]) (current_tokens + int (length encoded_text)) members
      else to_chunks_loop encode max_tokens rest
             (chunks @ [str_join '' '' current_chunk]) (tokens @ [current_tokens])
             [sentence] (int (length encoded_text)) (members @ [current_chunk]))"

text \<open>
  The whole pass over \<^verbatim>\<open>self.sequences\<close>: the loop from the empty state, then the
  flush of lines 57 to 59. The result is the list of chunks, the list of their token
  counts and the recorded members.
\<close>

definition to_chunks_pass ::
  "(string \<Rightarrow> 'tok list) \<Rightarrow> int \<Rightarrow> string list \<Rightarrow> string list \<times> int list \<times> string list list" where
  "to_chunks_pass encode max_tokens sequences =
     (case to_chunks_loop encode max_tokens sequences [] [] [] 0 [] of
        (chunks, tokens, current_chunk, current_tokens, members) \<Rightarrow>
          if current_chunk \<noteq> []
          then (chunks @ [str_join '' '' current_chunk], tokens @ [current_tokens],
                members @ [current_chunk])
          else (chunks, tokens, members))"

text \<open>The three components of the result of a pass.\<close>

definition chunks_of :: "string list \<times> int list \<times> string list list \<Rightarrow> string list" where
  "chunks_of r = fst r"

definition tokens_of :: "string list \<times> int list \<times> string list list \<Rightarrow> int list" where
  "tokens_of r = fst (snd r)"

definition members_of :: "string list \<times> int list \<times> string list list \<Rightarrow> string list list" where
  "members_of r = snd (snd r)"

text \<open>The token count the loop measures for a sentence: the sentence with a trailing space.\<close>

definition sentence_tokens :: "(string \<Rightarrow> 'tok list) \<Rightarrow> string \<Rightarrow> int" where
  "sentence_tokens encode sentence = int (length (encode (sentence @ '' '')))"

text \<open>The sum of the measured counts of the sentences of a chunk.\<close>

definition chunk_token_sum :: "(string \<Rightarrow> 'tok list) \<Rightarrow> string list \<Rightarrow> int" where
  "chunk_token_sum encode sentences = sum_list (map (sentence_tokens encode) sentences)"

subsection \<open>The naive splitter and chunker\<close>

text \<open>
  \<^verbatim>\<open>text.split(". ")\<close>: the fragments between the non-overlapping occurrences of
  the separator, found from the left. \<open>cur\<close> holds the current fragment, reversed.
  \<^verbatim>\<open>naive_split\<close> (lines 197 to 214) keeps the fragments longer than
  \<open>minimal_length\<close>; the length of a string is the number of its characters.
\<close>

fun split_dot_space :: "string \<Rightarrow> string \<Rightarrow> string list" where
  "split_dot_space cur [] = [rev cur]"
| "split_dot_space cur [c] = [rev (c # cur)]"
| "split_dot_space cur (c # d # rest) =
     (if c = CHR ''.'' \<and> d = CHR '' '' then rev cur # split_dot_space [] rest
      else split_dot_space (c # cur) (d # rest))"

definition naive_split :: "string \<Rightarrow> int \<Rightarrow> string list" where
  "naive_split text' minimal_length =
     filter (\<lambda>sentence. int (length sentence) > minimal_length) (split_dot_space [] text')"

text \<open>
  The loop of lines 248 to 259 over \<^verbatim>\<open>zip(sentences, n_tokens)\<close>. As above,
  \<open>members\<close> records the list \<open>chunk\<close> of every emitted chunk and is not in the source.
\<close>

fun naive_loop ::
  "int \<Rightarrow> (string \<times> int) list \<Rightarrow>
   int \<Rightarrow> string list \<Rightarrow> int list \<Rightarrow> string list \<Rightarrow> string list list \<Rightarrow>
   int \<times> string list \<times> int list \<times> string list \<times> string list list" where
  "naive_loop max_tokens [] total_tokens chunks tokens chunk members =
     (total_tokens, chunks, tokens, chunk, members)"
| "naive_loop max_tokens ((sentence, n_token) # rest) total_tokens chunks tokens chunk members =
     (case (if total_tokens + n_token > max_tokens \<and> chunk \<noteq> []
            then (0, chunks @ [str_join ''. '' chunk @ ''.''], tokens @ [total_tokens], [],
                  members @ [chunk])
            else (total_tokens, chunks, tokens, chunk, members)) of
        (total_tokens, chunks, tokens, chunk, members) \<Rightarrow>
          if n_token > max_tokens
          then naive_loop max_tokens rest total_tokens chunks tokens chunk members
          else naive_loop max_tokens rest (total_tokens + n_token + 1) chunks tokens
                 (chunk @ [sentence]) members)"

text \<open>The token count measured for a sentence before the loop: the sentence after a space.\<close>

definition naive_n_token :: "(string \<Rightarrow> 'tok list) \<Rightarrow> string \<Rightarrow> int" where
  "naive_n_token encode sentence = int (length (encode ('' '' @ sentence)))"

text \<open>
  For the sentences of a chunk: the sum of their measured counts, and the sum of what
  line 259 adds to \<open>total_tokens\<close> for them, the measured count and one.
\<close>

definition naive_measured_sum :: "(string \<Rightarrow> 'tok list) \<Rightarrow> string list \<Rightarrow> int" where
  "naive_measured_sum encode sentences = sum_list (map (naive_n_token encode) sentences)"

definition naive_reported_sum :: "(string \<Rightarrow> 'tok list) \<Rightarrow> string list \<Rightarrow> int" where
  "naive_reported_sum encode sentences =
     sum_list (map (\<lambda>sentence. naive_n_token encode sentence + 1) sentences)"

text \<open>
  The chunker on a list of sentences: the counts of lines 237 to 239, the loop from
  the empty state, and what line 261 puts into the table: \<open>chunks\<close> and \<open>tokens\<close>.
  Nothing after the loop looks at \<open>chunk\<close>.
\<close>

definition naive_pass ::
  "(string \<Rightarrow> 'tok list) \<Rightarrow> int \<Rightarrow> string list \<Rightarrow> string list \<times> int list \<times> string list list" where
  "naive_pass encode max_tokens sentences =
     (let n_tokens = map (naive_n_token encode) sentences in
      case naive_loop max_tokens (zip sentences n_tokens) 0 [] [] [] [] of
        (total_tokens, chunks, tokens, chunk, members) \<Rightarrow> (chunks, tokens, members))"

text \<open>The sentences the loop leaves in \<open>chunk\<close> when it ends.\<close>

definition naive_leftover :: "(string \<Rightarrow> 'tok list) \<Rightarrow> int \<Rightarrow> string list \<Rightarrow> string list" where
  "naive_leftover encode max_tokens sentences =
     (let n_tokens = map (naive_n_token encode) sentences in
      case naive_loop max_tokens (zip sentences n_tokens) 0 [] [] [] [] of
        (total_tokens, chunks, tokens, chunk, members) \<Rightarrow> chunk)"

text \<open>
  A list of sentences within the budget of the naive chunker: no sentence measures more
  than \<open>max_tokens\<close> and, unless the list is empty, the measured counts sum to at
  most \<open>max_tokens\<close> and the reported count is at most \<open>max_tokens + 1\<close>.
\<close>

definition naive_within :: "(string \<Rightarrow> 'tok list) \<Rightarrow> int \<Rightarrow> string list \<Rightarrow> bool" where
  "naive_within encode max_tokens g \<longleftrightarrow>
     list_all (\<lambda>s. naive_n_token encode s \<le> max_tokens) g \<and>
     (g = [] \<or> (naive_measured_sum encode g \<le> max_tokens \<and> naive_reported_sum encode g \<le> max_tokens + 1))"

subsection \<open>Exceptions\<close>

text \<open>
  The exceptions of the model: \<open>IndexError\<close> for an index into an empty list,
  \<open>ValueError\<close> for a table built from columns of different lengths, and two errors
  of the embedding service: a connection error, which the provider's client retries,
  and a rejected request, which it does not retry.
\<close>

datatype error = IndexError | ValueError | APIConnectionError | BadRequestError

subsection \<open>The table and the processor\<close>

text \<open>
  A row of the table: the columns \<^verbatim>\<open>chunks\<close> and \<^verbatim>\<open>n_tokens\<close>, and the embeddings
  column, absent until a fetch assigns it. The table is the list of its rows.
\<close>

record 'v row =
  row_chunks :: string
  row_n_tokens :: int
  row_embeddings :: "'v option"

text \<open>
  \<^verbatim>\<open>pd.DataFrame({'chunks': chunks, 'n_tokens': n_tokens})\<close>: the two lists, row by
  row; pandas raises \<open>ValueError\<close> when their lengths differ.
\<close>

definition DataFrame :: "string list \<Rightarrow> int list \<Rightarrow> error + 'v row list" where
  "DataFrame chunks n_tokens =
     (if length chunks = length n_tokens
      then Inr (map (\<lambda>(c, n). \<lparr>row_chunks = c, row_n_tokens = n, row_embeddings = None\<rparr>)
                 (zip chunks n_tokens))
      else Inl ValueError)"

text \<open>The attributes of a \<^verbatim>\<open>TextProcessor\<close> that the methods read and write.\<close>

record 'v processor =
  self_text :: string
  self_sequences :: "string list"
  self_chunks :: "string list"
  self_n_tokens :: "int list"
  self_segments :: "string list"
  self_dataframe :: "'v row list"

text \<open>The argument \<^verbatim>\<open>data\<close>: absent, a list of chunks, or a text.\<close>

datatype data = NoData | ChunkList "string list" | RawText string

text \<open>\<^verbatim>\<open>split\<close> (lines 23 to 27) and \<^verbatim>\<open>to_chunks\<close> (lines 29 to 62) as methods.\<close>

definition split ::
  "(string \<Rightarrow> string list) \<Rightarrow> string \<Rightarrow> 'v processor \<Rightarrow> string list \<times> 'v processor" where
  "split sents text' self =
     (sents text', self\<lparr>self_text := text', self_sequences := sents text'\<rparr>)"

definition to_chunks ::
  "(string \<Rightarrow> string list) \<Rightarrow> (string \<Rightarrow> 'tok list) \<Rightarrow> string option \<Rightarrow> int \<Rightarrow>
   'v processor \<Rightarrow> string list \<times> 'v processor" where
  "to_chunks sents encode text' max_tokens self =
     (let self1 = (case text' of None \<Rightarrow> self
                   | Some t \<Rightarrow> snd (split sents t (self\<lparr>self_text := t\<rparr>)));
          r = to_chunks_pass encode max_tokens (self_sequences self1)
      in (chunks_of r, self1\<lparr>self_chunks := chunks_of r, self_n_tokens := tokens_of r\<rparr>))"

text \<open>
  \<^verbatim>\<open>naive_token_splitter\<close> (lines 216 to 266): the table of the chunks and token
  counts of the naive pass over the sentences of \<^verbatim>\<open>naive_split\<close>.
\<close>

definition naive_token_splitter ::
  "(string \<Rightarrow> 'tok list) \<Rightarrow> string \<Rightarrow> int \<Rightarrow> int \<Rightarrow> 'v row list" where
  "naive_token_splitter encode text' max_tokens minimal_length =
     (let sentences = naive_split text' minimal_length;
          r = naive_pass encode max_tokens sentences
      in map (\<lambda>(c, n). \<lparr>row_chunks = c, row_n_tokens = n, row_embeddings = None\<rparr>)
           (zip (chunks_of r) (tokens_of r)))"

subsection \<open>The semantic grouper of \<^verbatim>\<open>TextProcessor.group_by_semantics\<close>\<close>

text \<open>
  The while loop of lines 90 to 97. \<open>segments\<close>, \<open>start_idx\<close>, \<open>end_idx\<close> and
  \<open>segment\<close> are the local variables of the source; \<open>compared\<close> is not in the source:
  it records the pair of indices of every call of \<^verbatim>\<open>similarity\<close>, in order.
\<close>

function group_loop ::
  "('d \<Rightarrow> 'd \<Rightarrow> real) \<Rightarrow> ('d \<Rightarrow> string) \<Rightarrow> real \<Rightarrow> string list \<Rightarrow> 'd list \<Rightarrow>
   string list \<Rightarrow> nat \<Rightarrow> nat \<Rightarrow> string list \<Rightarrow> (nat \<times> nat) list \<Rightarrow>
   string list \<times> string list \<times> (nat \<times> nat) list" where
  "group_loop similarity doc_text threshold chunks docs segments start_idx end_idx segment compared =
     (if end_idx < length docs
      then (if similarity (docs ! start_idx) (docs ! end_idx) \<ge> threshold
            then group_loop similarity doc_text threshold chunks docs
                   segments start_idx (end_idx + 1)
                   (segment @ [doc_text (docs ! end_idx)])
                   (compared @ [(start_idx, end_idx)])
            else group_loop similarity doc_text threshold chunks docs
                   (segments @ [str_join '' '' segment]) end_idx (end_idx + 1)
                   [chunks ! end_idx]
                   (compared @ [(start_idx, end_idx)]))
      else (segments, segment, compared))"
  by pat_completeness auto
termination
  by (relation "measure (\<lambda>(similarity, doc_text, threshold, chunks, docs, segments,
                            start_idx, end_idx, segment, compared). length docs - end_idx)")
     auto

text \<open>
  Lines 85 to 99 on a list of chunks: the parsed documents, the first segment opened
  at index 0 (an \<open>IndexError\<close> when there is no chunk), the loop, and the last segment.
  The result is the list of segments and the recorded comparisons.
\<close>

definition group_pass ::
  "('d \<Rightarrow> 'd \<Rightarrow> real) \<Rightarrow> ('d \<Rightarrow> string) \<Rightarrow> (string \<Rightarrow> 'd) \<Rightarrow> real \<Rightarrow> string list \<Rightarrow>
   error + string list \<times> (nat \<times> nat) list" where
  "group_pass similarity doc_text nlp threshold chunks =
     (let docs = map nlp chunks in
      if chunks = [] then Inl IndexError
      else (case group_loop similarity doc_text threshold chunks docs [] 0 1 [chunks ! 0] [] of
              (segments, segment, compared) \<Rightarrow>
                Inr (if segment \<noteq> [] then segments @ [str_join '' '' segment] else segments,
                     compared)))"

text \<open>
  \<^verbatim>\<open>group_by_semantics\<close> (lines 64 to 101) as a method: what lines 70 to 83 do
  with \<^verbatim>\<open>data\<close>, then the pass over \<^verbatim>\<open>self.chunks\<close>.
\<close>

definition group_by_semantics ::
  "(string \<Rightarrow> string list) \<Rightarrow> (string \<Rightarrow> 'tok list) \<Rightarrow>
   ('d \<Rightarrow> 'd \<Rightarrow> real) \<Rightarrow> ('d \<Rightarrow> string) \<Rightarrow> (string \<Rightarrow> 'd) \<Rightarrow>
   data \<Rightarrow> int \<Rightarrow> real \<Rightarrow> 'v processor \<Rightarrow> (error + string list) \<times> 'v processor" where
  "group_by_semantics sents encode similarity doc_text nlp data' max_tokens threshold self =
     (let self1 =
        (case data' of
           NoData \<Rightarrow> self
         | ChunkList d \<Rightarrow>
             (if self_n_tokens self = []
              then self\<lparr>self_n_tokens := map (\<lambda>chunk. int (length (encode chunk))) d\<rparr>
              else self)\<lparr>self_chunks := d\<rparr>
         | RawText t \<Rightarrow> snd (to_chunks sents encode (Some t) max_tokens self))
      in case group_pass similarity doc_text nlp threshold (self_chunks self1) of
           Inl e \<Rightarrow> (Inl e, self1)
         | Inr (segments, compared) \<Rightarrow> (Inr segments, self1\<lparr>self_segments := segments\<rparr>))"

text \<open>\<^verbatim>\<open>to_dataframe\<close> (lines 103 to 125).\<close>

definition to_dataframe ::
  "(string \<Rightarrow> string list) \<Rightarrow> (string \<Rightarrow> 'tok list) \<Rightarrow>
   ('d \<Rightarrow> 'd \<Rightarrow> real) \<Rightarrow> ('d \<Rightarrow> string) \<Rightarrow> (string \<Rightarrow> 'd) \<Rightarrow>
   data \<Rightarrow> int \<Rightarrow> real \<Rightarrow> 'v processor \<Rightarrow> (error + 'v row list) \<times> 'v processor" where
  "to_dataframe sents encode similarity doc_text nlp data' max_tokens threshold self =
     (case (if data' \<noteq> NoData
            then group_by_semantics sents encode similarity doc_text nlp data' max_tokens threshold self
            else (Inr [], self)) of
        (Inl e, self1) \<Rightarrow> (Inl e, self1)
      | (Inr segments, self1) \<Rightarrow>
          (case DataFrame (self_chunks self1) (self_n_tokens self1) of
             Inl e \<Rightarrow> (Inl e, self1)
           | Inr df \<Rightarrow> (Inr df, self1\<lparr>self_dataframe := df\<rparr>)))"

text \<open>
  The grouping the specification describes, on the indices of the chunks: \<open>pivot\<close> is
  the index of the chunk that opened the current segment, \<open>seg\<close> the indices in the
  current segment. Each candidate is compared with the pivot; it joins the segment
  exactly when the similarity is at least the threshold, and otherwise it opens a new
  segment and becomes the pivot. \<open>pivot_comparisons\<close> lists the comparisons made.
\<close>

fun pivot_groups ::
  "('d \<Rightarrow> 'd \<Rightarrow> real) \<Rightarrow> real \<Rightarrow> 'd list \<Rightarrow> nat \<Rightarrow> nat list \<Rightarrow> nat list \<Rightarrow> nat list list" where
  "pivot_groups similarity threshold docs pivot seg [] = [seg]"
| "pivot_groups similarity threshold docs pivot seg (candidate # rest) =
     (if similarity (docs ! pivot) (docs ! candidate) \<ge> threshold
      then pivot_groups similarity threshold docs pivot (seg @ [candidate]) rest
      else seg # pivot_groups similarity threshold docs candidate [candidate] rest)"

fun pivot_comparisons ::
  "('d \<Rightarrow> 'd \<Rightarrow> real) \<Rightarrow> real \<Rightarrow> 'd list \<Rightarrow> nat \<Rightarrow> nat list \<Rightarrow> (nat \<times> nat) list" where
  "pivot_comparisons similarity threshold docs pivot [] = []"
| "pivot_comparisons similarity threshold docs pivot (candidate # rest) =
     (pivot, candidate) #
     (if similarity (docs ! pivot) (docs ! candidate) \<ge> threshold
      then pivot_comparisons similarity threshold docs pivot rest
      else pivot_comparisons similarity threshold docs candidate rest)"

text \<open>
  The text of a segment of indices: the chunk of the index that opened it, then the
  texts of the parsed documents of the others, joined by one space.
\<close>

definition segment_text :: "('d \<Rightarrow> string) \<Rightarrow> string list \<Rightarrow> 'd list \<Rightarrow> nat list \<Rightarrow> string" where
  "segment_text doc_text chunks docs seg =
     str_join '' '' (chunks ! hd seg # map (\<lambda>i. doc_text (docs ! i)) (tl seg))"

text \<open>The list \<open>segment\<close> the loop holds for a segment of indices.\<close>

definition segment_strings :: "('d \<Rightarrow> string) \<Rightarrow> string list \<Rightarrow> 'd list \<Rightarrow> nat list \<Rightarrow> string list" where
  "segment_strings doc_text chunks docs seg = chunks ! hd seg # map (\<lambda>i. doc_text (docs ! i)) (tl seg)"

subsection \<open>The embedding fetchers\<close>

text \<open>
  The provider's client is not part of the repository. The model keeps what the
  fetchers rely on: a client is built with a number of retries, the constructor's
  argument \<^verbatim>\<open>max_retries\<close>, or the library's default when the argument is left out;
  a request that ends in an error the client retries is sent again, at most that many
  times. The service answers a text at its \<open>attempt\<close>-th try with a vector or an error.
\<close>

record client =
  max_retries :: nat

definition OpenAI :: "nat \<Rightarrow> client" where
  "OpenAI default_max_retries = \<lparr>max_retries = default_max_retries\<rparr>"

definition AsyncOpenAI :: "nat \<Rightarrow> client" where
  "AsyncOpenAI retries = \<lparr>max_retries = retries\<rparr>"

definition retried :: "error \<Rightarrow> bool" where
  "retried e = (e = APIConnectionError)"

fun request :: "(string \<Rightarrow> nat \<Rightarrow> error + 'v) \<Rightarrow> string \<Rightarrow> nat \<Rightarrow> nat \<Rightarrow> error + 'v" where
  "request service input 0 attempt = service input attempt"
| "request service input (Suc retries_left) attempt =
     (case service input attempt of
        Inr v \<Rightarrow> Inr v
      | Inl e \<Rightarrow> if retried e then request service input retries_left (Suc attempt) else Inl e)"

text \<open>\<^verbatim>\<open>create_embedding(row)\<close>: one request for the text of the row.\<close>

definition create_embedding ::
  "client \<Rightarrow> (string \<Rightarrow> nat \<Rightarrow> error + 'v) \<Rightarrow> 'v row \<Rightarrow> error + 'v" where
  "create_embedding client' service row = request service (row_chunks row) (max_retries client') 0"

text \<open>
  The loop of lines 151 and 152: one request after the other, in the order of the
  rows; the first error ends the loop.
\<close>

fun fetch_in_order ::
  "client \<Rightarrow> (string \<Rightarrow> nat \<Rightarrow> error + 'v) \<Rightarrow> 'v row list \<Rightarrow> 'v list \<Rightarrow> error + 'v list" where
  "fetch_in_order client' service [] embeddings' = Inr embeddings'"
| "fetch_in_order client' service (row # rest) embeddings' =
     (case create_embedding client' service row of
        Inl e \<Rightarrow> Inl e
      | Inr v \<Rightarrow> fetch_in_order client' service rest (embeddings' @ [v]))"

text \<open>Lines 154 and 192: the embeddings column is assigned, row by row.\<close>

definition assign_embeddings :: "'v row list \<Rightarrow> 'v list \<Rightarrow> 'v row list" where
  "assign_embeddings df embeddings' =
     map (\<lambda>(row, v). row\<lparr>row_embeddings := Some v\<rparr>) (zip df embeddings')"

text \<open>
  \<^verbatim>\<open>embeddings\<close> (lines 127 to 156), for \<^verbatim>\<open>data\<close> absent, a list or a text. The
  client is built without \<^verbatim>\<open>max_retries\<close>, so it has the library's default.
\<close>

definition embeddings ::
  "nat \<Rightarrow> (string \<Rightarrow> nat \<Rightarrow> error + 'v) \<Rightarrow>
   (string \<Rightarrow> string list) \<Rightarrow> (string \<Rightarrow> 'tok list) \<Rightarrow>
   ('d \<Rightarrow> 'd \<Rightarrow> real) \<Rightarrow> ('d \<Rightarrow> string) \<Rightarrow> (string \<Rightarrow> 'd) \<Rightarrow>
   data \<Rightarrow> int \<Rightarrow> real \<Rightarrow> 'v processor \<Rightarrow> (error + 'v row list) \<times> 'v processor" where
  "embeddings default_max_retries service sents encode similarity doc_text nlp data' max_tokens
     threshold self =
     (case (if data' \<noteq> NoData
            then to_dataframe sents encode similarity doc_text nlp data' max_tokens threshold self
            else (Inr [], self)) of
        (Inl e, self1) \<Rightarrow> (Inl e, self1)
      | (Inr built, self1) \<Rightarrow>
          (case fetch_in_order (OpenAI default_max_retries) service (self_dataframe self1) [] of
             Inl e \<Rightarrow> (Inl e, self1)
           | Inr embeddings' \<Rightarrow>
               (Inr (assign_embeddings (self_dataframe self1) embeddings'),
                self1\<lparr>self_dataframe := assign_embeddings (self_dataframe self1) embeddings'\<rparr>)))"

text \<open>
  \<^verbatim>\<open>asyncio.gather(*tasks)\<close>. The tasks run on their own; \<open>schedule\<close> lists
  the indices of the tasks in the order in which they complete. The result of a task
  goes to the slot of its index. The first task to fail makes \<^verbatim>\<open>gather\<close> raise its
  error; when every slot is filled, \<^verbatim>\<open>gather\<close> returns the slots in the order of
  the tasks. While a slot is empty \<^verbatim>\<open>gather\<close> has not returned: the value \<open>None\<close>.
\<close>

fun gather_loop :: "nat list \<Rightarrow> (error + 'v) list \<Rightarrow> 'v option list \<Rightarrow> error + 'v option list" where
  "gather_loop [] tasks slots = Inr slots"
| "gather_loop (i # schedule) tasks slots =
     (if i < length tasks
      then (case tasks ! i of
              Inl e \<Rightarrow> Inl e
            | Inr v \<Rightarrow> gather_loop schedule tasks (slots[i := Some v]))
      else gather_loop schedule tasks slots)"

definition gather :: "nat list \<Rightarrow> (error + 'v) list \<Rightarrow> (error + 'v list) option" where
  "gather schedule tasks =
     (case gather_loop schedule tasks (replicate (length tasks) None) of
        Inl e \<Rightarrow> Some (Inl e)
      | Inr slots \<Rightarrow> if list_all (\<lambda>slot. slot \<noteq> None) slots then Some (Inr (map the slots))
                     else None)"

text \<open>
  \<^verbatim>\<open>async_embeddings\<close> (lines 158 to 194), for \<^verbatim>\<open>data\<close> absent, a list or a
  text. The client is built with \<^verbatim>\<open>max_retries=1\<close>; line 190 makes one task per
  row, in the order of the rows.
\<close>

definition async_embeddings ::
  "nat list \<Rightarrow> (string \<Rightarrow> nat \<Rightarrow> error + 'v) \<Rightarrow>
   (string \<Rightarrow> string list) \<Rightarrow> (string \<Rightarrow> 'tok list) \<Rightarrow>
   ('d \<Rightarrow> 'd \<Rightarrow> real) \<Rightarrow> ('d \<Rightarrow> string) \<Rightarrow> (string \<Rightarrow> 'd) \<Rightarrow>
   data \<Rightarrow> int \<Rightarrow> real \<Rightarrow> 'v processor \<Rightarrow> ((error + 'v row list) \<times> 'v processor) option" where
  "async_embeddings schedule service sents encode similarity doc_text nlp data' max_tokens
     threshold self =
     (case (if data' \<noteq> NoData
            then to_dataframe sents encode similarity doc_text nlp data' max_tokens threshold self
            else (Inr [], self)) of
        (Inl e, self1) \<Rightarrow> Some (Inl e, self1)
      | (Inr built, self1) \<Rightarrow>
          (case gather schedule
                  (map (create_embedding (AsyncOpenAI 1) service) (self_dataframe self1)) of
             None \<Rightarrow> None
           | Some (Inl e) \<Rightarrow> Some (Inl e, self1)
           | Some (Inr embeddings') \<Rightarrow>
               Some (Inr (assign_embeddings (self_dataframe self1) embeddings'),
                     self1\<lparr>self_dataframe := assign_embeddings (self_dataframe self1) embeddings'\<rparr>)))"

text \<open>
  A similarity for the examples: the documents are the texts themselves, and two
  texts are the more similar the closer their lengths.
\<close>

definition length_similarity :: "string \<Rightarrow> string \<Rightarrow> real" where
  "length_similarity a b = 1 - \<bar>real (length a) - real (length b)\<bar> / 10"

text \<open>
  A service for the examples: its first two answers to any text are connection errors,
  its third is the vector \<open>v\<close>.
\<close>

definition fails_twice :: "'v \<Rightarrow> string \<Rightarrow> nat \<Rightarrow> error + 'v" where
  "fails_twice v input attempt = (if attempt < 2 then Inl APIConnectionError else Inr v)"

text \<open>
  The number of times a request is sent, by the recursion of \<open>request\<close>; not in the
  source.
\<close>

fun attempts :: "(string \<Rightarrow> nat \<Rightarrow> error + 'v) \<Rightarrow> string \<Rightarrow> nat \<Rightarrow> nat \<Rightarrow> nat" where
  "attempts service input 0 attempt = 1"
| "attempts service input (Suc retries_left) attempt =
     (case service input attempt of
        Inr v \<Rightarrow> 1
      | Inl e \<Rightarrow> if retried e then 1 + attempts service input retries_left (Suc attempt) else 1)"

section \<open>Properties\<close>

subsection \<open>The loop of \<^verbatim>\<open>to_chunks\<close>: invariants\<close>

text \<open>
  A property that holds of the empty state and that both branches of the loop body keep
  holds of the state the loop ends in.
\<close>

lemma chunk_token_sum_simps:
  "chunk_token_sum encode [] = 0"
  "chunk_token_sum encode (xs @ [s]) = chunk_token_sum encode xs + sentence_tokens encode s"
  "chunk_token_sum encode [s] = sentence_tokens encode s"
  by (simp_all add: chunk_token_sum_def)

lemma to_chunks_loop_invariant:
  assumes init: "I chunks tokens cc ct members"
    and keep: "\<And>s chunks tokens cc ct members.
      I chunks tokens cc ct members \<Longrightarrow> ct + sentence_tokens encode s \<le> max_tokens \<Longrightarrow>
      I chunks tokens (cc @ [s]) (ct + sentence_tokens encode s) members"
    and emit: "\<And>s chunks tokens cc ct members.
      I chunks tokens cc ct members \<Longrightarrow> \<not> ct + sentence_tokens encode s \<le> max_tokens \<Longrightarrow>
      I (chunks @ [str_join '' '' cc]) (tokens @ [ct]) [s] (sentence_tokens encode s) (members @ [cc])"
  shows "case to_chunks_loop encode max_tokens ss chunks tokens cc ct members of
           (chunks', tokens', cc', ct', members') \<Rightarrow> I chunks' tokens' cc' ct' members'"
  using init
proof (induction ss arbitrary: chunks tokens cc ct members)
  case Nil
  then show ?case by simp
next
  case (Cons s ss)
  show ?case
  proof (cases "ct + sentence_tokens encode s \<le> max_tokens")
    case True
    then have "I chunks tokens (cc @ [s]) (ct + sentence_tokens encode s) members"
      using Cons.prems keep by blast
    from Cons.IH[OF this] True show ?thesis
      by (simp add: sentence_tokens_def)
  next
    case False
    then have "I (chunks @ [str_join '' '' cc]) (tokens @ [ct]) [s] (sentence_tokens encode s) (members @ [cc])"
      using Cons.prems emit by blast
    from Cons.IH[OF this] False show ?thesis
      by (simp add: sentence_tokens_def)
  qed
qed

lemma to_chunks_loop_counts:
  "case to_chunks_loop encode max_tokens ss [] [] [] 0 [] of
     (chunks, tokens, cc, ct, members) \<Rightarrow>
       tokens = map (chunk_token_sum encode) members \<and> ct = chunk_token_sum encode cc"
  by (rule to_chunks_loop_invariant) (simp_all add: chunk_token_sum_simps)

lemma to_chunks_loop_texts:
  "case to_chunks_loop encode max_tokens ss [] [] [] 0 [] of
     (chunks, tokens, cc, ct, members) \<Rightarrow> chunks = map (str_join '' '') members"
  by (rule to_chunks_loop_invariant) simp_all

lemma to_chunks_loop_budget:
  "case to_chunks_loop encode max_tokens ss [] [] [] 0 [] of
     (chunks, tokens, cc, ct, members) \<Rightarrow>
       ct = chunk_token_sum encode cc \<and>
       list_all (\<lambda>g. chunk_token_sum encode g \<le> max_tokens \<or> length g \<le> 1) (cc # members)"
  by (rule to_chunks_loop_invariant) (simp_all add: chunk_token_sum_simps)

lemma to_chunks_loop_later_nonempty:
  "case to_chunks_loop encode max_tokens ss [] [] [] 0 [] of
     (chunks, tokens, cc, ct, members) \<Rightarrow>
       list_all (\<lambda>g. g \<noteq> []) (tl members) \<and> (members \<noteq> [] \<longrightarrow> cc \<noteq> [])"
  by (rule to_chunks_loop_invariant) (auto simp: tl_append split: list.splits)

lemma to_chunks_loop_order:
  "to_chunks_loop encode max_tokens ss chunks tokens cc ct members = (chunks', tokens', cc', ct', members')
   \<Longrightarrow> concat members' @ cc' = concat members @ cc @ ss"
proof (induction ss arbitrary: chunks tokens cc ct members)
  case Nil
  then show ?case by auto
next
  case (Cons s ss)
  show ?case
  proof (cases "ct + int (length (encode (s @ '' ''))) \<le> max_tokens")
    case True
    with Cons.prems have "concat members' @ cc' = concat members @ (cc @ [s]) @ ss"
      by (intro Cons.IH[of chunks tokens "cc @ [s]" "ct + int (length (encode (s @ '' '')))" members]) simp
    then show ?thesis by simp
  next
    case False
    with Cons.prems have "concat members' @ cc' = concat (members @ [cc]) @ [s] @ ss"
      by (intro Cons.IH[of "chunks @ [str_join '' '' cc]" "tokens @ [ct]" "[s]" "int (length (encode (s @ '' '')))" "members @ [cc]"]) simp
    then show ?thesis by simp
  qed
qed

lemma to_chunks_pass_counts:
  "tokens_of (to_chunks_pass encode max_tokens ss) =
     map (chunk_token_sum encode) (members_of (to_chunks_pass encode max_tokens ss))"
  using to_chunks_loop_counts[of encode max_tokens ss]
  by (auto simp: to_chunks_pass_def tokens_of_def members_of_def split: prod.splits)

lemma to_chunks_pass_texts:
  "chunks_of (to_chunks_pass encode max_tokens ss) =
     map (str_join '' '') (members_of (to_chunks_pass encode max_tokens ss))"
  using to_chunks_loop_texts[of encode max_tokens ss]
  by (auto simp: to_chunks_pass_def chunks_of_def members_of_def split: prod.splits)

lemma to_chunks_pass_budget:
  "list_all (\<lambda>g. chunk_token_sum encode g \<le> max_tokens \<or> length g \<le> 1)
     (members_of (to_chunks_pass encode max_tokens ss))"
  using to_chunks_loop_budget[of encode max_tokens ss]
  by (auto simp: to_chunks_pass_def members_of_def split: prod.splits)

lemma to_chunks_pass_order:
  "concat (members_of (to_chunks_pass encode max_tokens ss)) = ss"
proof -
  obtain chunks tokens cc ct members where
    loop: "to_chunks_loop encode max_tokens ss [] [] [] 0 [] = (chunks, tokens, cc, ct, members)"
    by (metis prod_cases5)
  from to_chunks_loop_order[OF loop] have "concat members @ cc = ss" by simp
  with loop show ?thesis
    by (auto simp: to_chunks_pass_def members_of_def)
qed

lemma to_chunks_pass_later_nonempty:
  "list_all (\<lambda>g. g \<noteq> []) (tl (members_of (to_chunks_pass encode max_tokens ss)))"
  using to_chunks_loop_later_nonempty[of encode max_tokens ss]
  by (auto simp: to_chunks_pass_def members_of_def tl_append split: prod.splits list.splits)

subsection \<open>The loop of \<^verbatim>\<open>naive_token_splitter\<close>: invariants\<close>

lemma naive_sums_simps:
  "naive_measured_sum encode [] = 0"
  "naive_measured_sum encode (xs @ [s]) = naive_measured_sum encode xs + naive_n_token encode s"
  "naive_reported_sum encode [] = 0"
  "naive_reported_sum encode (xs @ [s]) = naive_reported_sum encode xs + naive_n_token encode s + 1"
  "naive_measured_sum encode [s] = naive_n_token encode s"
  "naive_reported_sum encode [s] = naive_n_token encode s + 1"
  by (simp_all add: naive_measured_sum_def naive_reported_sum_def)

lemma naive_reported_measured:
  "naive_reported_sum encode g = naive_measured_sum encode g + int (length g)"
  by (induction g) (simp_all add: naive_measured_sum_def naive_reported_sum_def)

lemma zip_with_image: "zip xs (map f xs) = map (\<lambda>x. (x, f x)) xs"
  by (induction xs) simp_all

lemma naive_loop_invariant:
  assumes init: "I tt chunks tokens chunk members"
    and flush: "\<And>s tt chunks tokens chunk members.
      I tt chunks tokens chunk members \<Longrightarrow> tt + f s > max_tokens \<Longrightarrow> chunk \<noteq> [] \<Longrightarrow>
      I 0 (chunks @ [str_join ''. '' chunk @ ''.'']) (tokens @ [tt]) [] (members @ [chunk])"
    and keep: "\<And>s tt chunks tokens chunk members.
      I tt chunks tokens chunk members \<Longrightarrow> \<not> (tt + f s > max_tokens \<and> chunk \<noteq> []) \<Longrightarrow>
      \<not> f s > max_tokens \<Longrightarrow>
      I (tt + f s + 1) chunks tokens (chunk @ [s]) members"
  shows "case naive_loop max_tokens (map (\<lambda>s. (s, f s)) ss) tt chunks tokens chunk members of
           (tt', chunks', tokens', chunk', members') \<Rightarrow> I tt' chunks' tokens' chunk' members'"
  using init
proof (induction ss arbitrary: tt chunks tokens chunk members)
  case Nil
  then show ?case by simp
next
  case (Cons s ss)
  show ?case
  proof (cases "tt + f s > max_tokens \<and> chunk \<noteq> []")
    case True
    then have flushed: "I 0 (chunks @ [str_join ''. '' chunk @ ''.'']) (tokens @ [tt]) [] (members @ [chunk])"
      using Cons.prems flush by blast
    show ?thesis
    proof (cases "f s > max_tokens")
      case over: True
      from Cons.IH[OF flushed] True over show ?thesis by simp
    next
      case fits: False
      have "I (0 + f s + 1) (chunks @ [str_join ''. '' chunk @ ''.'']) (tokens @ [tt]) ([] @ [s]) (members @ [chunk])"
        using flushed fits by (intro keep) simp_all
      from Cons.IH[OF this] True fits show ?thesis by simp
    qed
  next
    case False
    show ?thesis
    proof (cases "f s > max_tokens")
      case over: True
      from Cons.IH[OF Cons.prems] False over show ?thesis by auto
    next
      case fits: False
      have "I (tt + f s + 1) chunks tokens (chunk @ [s]) members"
        using Cons.prems False fits by (intro keep) simp_all
      from Cons.IH[OF this] False fits show ?thesis by auto
    qed
  qed
qed

lemma naive_loop_counts:
  "case naive_loop max_tokens (map (\<lambda>s. (s, naive_n_token encode s)) ss) 0 [] [] [] [] of
     (tt, chunks, tokens, chunk, members) \<Rightarrow>
       tokens = map (naive_reported_sum encode) members \<and> tt = naive_reported_sum encode chunk"
  by (rule naive_loop_invariant) (simp_all add: naive_sums_simps)

lemma naive_loop_texts:
  "case naive_loop max_tokens (map (\<lambda>s. (s, naive_n_token encode s)) ss) 0 [] [] [] [] of
     (tt, chunks, tokens, chunk, members) \<Rightarrow>
       chunks = map (\<lambda>g. str_join ''. '' g @ ''.'') members"
  by (rule naive_loop_invariant) simp_all

lemma naive_loop_budget:
  "case naive_loop max_tokens (map (\<lambda>s. (s, naive_n_token encode s)) ss) 0 [] [] [] [] of
     (tt, chunks, tokens, chunk, members) \<Rightarrow>
       tt = naive_reported_sum encode chunk \<and>
       naive_within encode max_tokens chunk \<and>
       list_all (\<lambda>g. g \<noteq> [] \<and> naive_within encode max_tokens g) members"
proof (rule naive_loop_invariant, goal_cases)
  case 1
  then show ?case by (simp add: naive_within_def naive_sums_simps)
next
  case (2 s tt chunks tokens chunk members)
  then show ?case by (simp add: naive_within_def naive_sums_simps)
next
  case (3 s tt chunks tokens chunk members)
  have len: "naive_measured_sum encode chunk \<le> naive_reported_sum encode chunk"
    by (simp add: naive_reported_measured)
  from 3 len show ?case
    by (cases "chunk = []") (auto simp: naive_within_def naive_sums_simps)
qed

lemma naive_loop_order:
  "naive_loop max_tokens (map (\<lambda>s. (s, f s)) ss) tt chunks tokens chunk members
     = (tt', chunks', tokens', chunk', members')
   \<Longrightarrow> concat members' @ chunk' = concat members @ chunk @ filter (\<lambda>s. f s \<le> max_tokens) ss"
proof (induction ss arbitrary: tt chunks tokens chunk members)
  case Nil
  then show ?case by auto
next
  case (Cons s ss)
  show ?case
  proof (cases "tt + f s > max_tokens \<and> chunk \<noteq> []")
    case flush: True
    show ?thesis
    proof (cases "f s > max_tokens")
      case True
      with flush Cons.prems have "concat members' @ chunk' =
          concat (members @ [chunk]) @ [] @ filter (\<lambda>s. f s \<le> max_tokens) ss"
        by (intro Cons.IH[of 0 "chunks @ [str_join ''. '' chunk @ ''.'']" "tokens @ [tt]" "[]" "members @ [chunk]"]) simp
      with True show ?thesis by simp
    next
      case False
      with flush Cons.prems have "concat members' @ chunk' =
          concat (members @ [chunk]) @ [s] @ filter (\<lambda>s. f s \<le> max_tokens) ss"
        by (intro Cons.IH[of "0 + f s + 1" "chunks @ [str_join ''. '' chunk @ ''.'']" "tokens @ [tt]" "[s]" "members @ [chunk]"]) simp
      with False show ?thesis by simp
    qed
  next
    case stay: False
    show ?thesis
    proof (cases "f s > max_tokens")
      case True
      with stay Cons.prems have "concat members' @ chunk' =
          concat members @ chunk @ filter (\<lambda>s. f s \<le> max_tokens) ss"
        by (intro Cons.IH[of tt chunks tokens chunk members]) auto
      with True show ?thesis by simp
    next
      case False
      with stay Cons.prems have "concat members' @ chunk' =
          concat members @ (chunk @ [s]) @ filter (\<lambda>s. f s \<le> max_tokens) ss"
        by (intro Cons.IH[of "tt + f s + 1" chunks tokens "chunk @ [s]" members]) auto
      with False show ?thesis by simp
    qed
  qed
qed

lemma naive_pass_counts:
  "tokens_of (naive_pass encode max_tokens ss) =
     map (naive_reported_sum encode) (members_of (naive_pass encode max_tokens ss))"
  using naive_loop_counts[where max_tokens=max_tokens and encode=encode and ss=ss]
  by (auto simp: naive_pass_def tokens_of_def members_of_def zip_with_image split: prod.splits)

lemma naive_pass_texts:
  "chunks_of (naive_pass encode max_tokens ss) =
     map (\<lambda>g. str_join ''. '' g @ ''.'') (members_of (naive_pass encode max_tokens ss))"
  using naive_loop_texts[where max_tokens=max_tokens and encode=encode and ss=ss]
  by (auto simp: naive_pass_def chunks_of_def members_of_def zip_with_image split: prod.splits)

lemma naive_pass_budget:
  "list_all (\<lambda>g. g \<noteq> [] \<and> naive_within encode max_tokens g)
     (members_of (naive_pass encode max_tokens ss))"
  using naive_loop_budget[where max_tokens=max_tokens and encode=encode and ss=ss]
  by (auto simp: naive_pass_def members_of_def zip_with_image split: prod.splits)

lemma naive_pass_order:
  "concat (members_of (naive_pass encode max_tokens ss)) @ naive_leftover encode max_tokens ss =
     filter (\<lambda>s. naive_n_token encode s \<le> max_tokens) ss"
proof -
  obtain tt chunks tokens chunk members where
    loop: "naive_loop max_tokens (map (\<lambda>s. (s, naive_n_token encode s)) ss) 0 [] [] [] []
             = (tt, chunks, tokens, chunk, members)"
    by (metis prod_cases5)
  from naive_loop_order[OF loop] loop show ?thesis
    by (simp add: naive_pass_def naive_leftover_def members_of_def zip_with_image)
qed

subsection \<open>Token counts of the chunks\<close>

text \<open>
  Claim C1, as amended. For every tokenizer, budget and list of sentences: each chunk
  of \<^verbatim>\<open>to_chunks\<close> reports the sum of the measured counts of its member sentences,
  each measured with its trailing space; each chunk that \<^verbatim>\<open>naive_token_splitter\<close>
  emits reports the sum, over its member sentences, of the measured count (the sentence
  after a space) plus one.
\<close>

theorem chunk_token_count_sums_contributions:
  "tokens_of (to_chunks_pass encode max_tokens sentences) =
     map (chunk_token_sum encode) (members_of (to_chunks_pass encode max_tokens sentences)) \<and>
   tokens_of (naive_pass encode max_tokens sentences) =
     map (naive_reported_sum encode) (members_of (naive_pass encode max_tokens sentences))"
  by (simp add: to_chunks_pass_counts naive_pass_counts)

text \<open>
  Claim C1 as stated fails for the naive chunker. With one token per character and a
  budget of 7, the sentences \<open>ab\<close>, \<open>cd\<close>, \<open>ef\<close> give one chunk of \<open>ab\<close> and \<open>cd\<close>
  that reports 8 tokens, while the measured counts of its members sum to 6.
\<close>

theorem naive_count_is_not_measured_sum:
  "tokens_of (naive_pass (\<lambda>s. s) 7 [''ab'', ''cd'', ''ef'']) = [8] \<and>
   map (naive_measured_sum (\<lambda>s. s)) (members_of (naive_pass (\<lambda>s. s) 7 [''ab'', ''cd'', ''ef''])) = [6]"
  by (simp add: naive_pass_def tokens_of_def members_of_def naive_n_token_def naive_measured_sum_def)

subsection \<open>Texts of the chunks\<close>

text \<open>
  Claim C9, as amended. For every tokenizer, budget and list of sentences: the text of
  each chunk of \<^verbatim>\<open>to_chunks\<close> is its member sentences joined by one space, with
  nothing before or after; the text of each chunk that \<^verbatim>\<open>naive_token_splitter\<close>
  emits is its member sentences joined by a full stop and a space, with one full stop
  appended.
\<close>

theorem chunk_text_joins_members:
  "chunks_of (to_chunks_pass encode max_tokens sentences) =
     map (str_join '' '') (members_of (to_chunks_pass encode max_tokens sentences)) \<and>
   chunks_of (naive_pass encode max_tokens sentences) =
     map (\<lambda>g. str_join ''. '' g @ ''.'') (members_of (naive_pass encode max_tokens sentences))"
  by (simp add: to_chunks_pass_texts naive_pass_texts)

text \<open>
  Claim C9 as stated fails for the naive chunker: the chunk of \<open>one\<close> and \<open>two\<close> has
  the text \<open>one. two.\<close>, not \<open>one two\<close>.
\<close>

theorem naive_text_is_not_space_joined:
  "chunks_of (naive_pass (\<lambda>s. s) 9 [''one'', ''two'', ''three'']) = [''one. two.''] \<and>
   map (str_join '' '') (members_of (naive_pass (\<lambda>s. s) 9 [''one'', ''two'', ''three''])) = [''one two'']"
  by (simp add: naive_pass_def chunks_of_def members_of_def naive_n_token_def)

subsection \<open>The chunk left at the end of the pass\<close>

text \<open>
  The pass of \<^verbatim>\<open>to_chunks\<close> loses no sentence: its chunks, one after the other, are
  the sentences it was given.
\<close>

lemma to_chunks_keeps_every_sentence:
  "concat (members_of (to_chunks_pass encode max_tokens sentences)) = sentences"
  by (rule to_chunks_pass_order)

text \<open>
  The naive chunker keeps the sentences within the budget in order, but the ones in the
  last running chunk are not in any chunk of the table.
\<close>

lemma naive_keeps_sentences_within_budget:
  "concat (members_of (naive_pass encode max_tokens sentences)) @
     naive_leftover encode max_tokens sentences =
   filter (\<lambda>s. naive_n_token encode s \<le> max_tokens) sentences"
  by (rule naive_pass_order)

text \<open>
  When all the sentences fit into one chunk, the loop never emits: the pass returns no
  chunk and every sentence is left in the running chunk.
\<close>

lemma naive_reported_sum_nonneg: "0 \<le> naive_reported_sum encode ss"
  by (induction ss) (simp_all add: naive_reported_sum_def naive_n_token_def)

lemma naive_reported_sum_Cons:
  "naive_reported_sum encode (s # ss) = naive_n_token encode s + 1 + naive_reported_sum encode ss"
  by (simp add: naive_reported_sum_def)

lemma naive_loop_all_fit:
  "0 \<le> tt \<Longrightarrow> tt + naive_reported_sum encode ss \<le> max_tokens \<Longrightarrow>
   naive_loop max_tokens (map (\<lambda>s. (s, naive_n_token encode s)) ss) tt chunks tokens chunk members =
     (tt + naive_reported_sum encode ss, chunks, tokens, chunk @ ss, members)"
proof (induction ss arbitrary: tt chunk)
  case Nil
  then show ?case by (simp add: naive_reported_sum_def)
next
  case (Cons s ss)
  let ?n = "naive_n_token encode s"
  have n: "0 \<le> ?n" by (simp add: naive_n_token_def)
  have rest: "0 \<le> naive_reported_sum encode ss" by (rule naive_reported_sum_nonneg)
  from Cons.prems n rest have fits: "\<not> tt + ?n > max_tokens" "\<not> ?n > max_tokens"
    by (simp_all add: naive_reported_sum_Cons)
  have "0 \<le> tt + ?n + 1" using Cons.prems n by simp
  moreover have "tt + ?n + 1 + naive_reported_sum encode ss \<le> max_tokens"
    using Cons.prems by (simp add: naive_reported_sum_Cons)
  ultimately have "naive_loop max_tokens (map (\<lambda>s. (s, naive_n_token encode s)) ss) (tt + ?n + 1)
      chunks tokens (chunk @ [s]) members =
     (tt + ?n + 1 + naive_reported_sum encode ss, chunks, tokens, (chunk @ [s]) @ ss, members)"
    by (rule Cons.IH)
  with fits show ?case by (simp add: naive_reported_sum_Cons)
qed

lemma naive_pass_all_fit:
  assumes "naive_reported_sum encode ss \<le> max_tokens"
  shows "naive_pass encode max_tokens ss = ([], [], []) \<and> naive_leftover encode max_tokens ss = ss"
  using naive_loop_all_fit[of 0 encode ss max_tokens "[]" "[]" "[]" "[]"] assms
  by (simp add: naive_pass_def naive_leftover_def zip_with_image)

text \<open>
  Claim C2 fails on \<^verbatim>\<open>naive_token_splitter\<close>: nothing after its loop emits the
  running chunk. On the text \<open>A. B. C.\<close> with \<open>minimal_length = 0\<close>, the default
  budget of 500 and one token per character, the three sentences stay in the running
  chunk and the table is empty.
\<close>

theorem naive_drops_running_chunk:
  "naive_token_splitter (\<lambda>s. s) ''A. B. C.'' 500 0 = ([] :: nat row list) \<and>
   naive_split ''A. B. C.'' 0 = [''A'', ''B'', ''C.''] \<and>
   naive_leftover (\<lambda>s. s) 500 (naive_split ''A. B. C.'' 0) = [''A'', ''B'', ''C.'']"
  by (simp add: naive_token_splitter_def naive_pass_def naive_leftover_def naive_split_def
      naive_n_token_def chunks_of_def tokens_of_def)

subsection \<open>Empty chunks\<close>

text \<open>
  Claim C4 fails on \<^verbatim>\<open>to_chunks\<close>: when the first sentence alone is over the
  budget, the loop emits the running chunk while it is still empty. With one token per
  character and a budget of 5, the sentences \<open>abcdefgh\<close> and \<open>cd\<close> give three chunks,
  the first with the empty text and the token count 0.
\<close>

theorem to_chunks_emits_empty_chunk:
  "to_chunks_pass (\<lambda>s. s) 5 [''abcdefgh'', ''cd''] =
     (['''', ''abcdefgh'', ''cd''], [0, 9, 3], [[], [''abcdefgh''], [''cd'']])"
  by (simp add: to_chunks_pass_def)

text \<open>Whenever the first sentence is over the budget, the first chunk has no member.\<close>

lemma to_chunks_first_sentence_over_budget:
  assumes "sentence_tokens encode s > max_tokens"
  shows "\<exists>rest. members_of (to_chunks_pass encode max_tokens (s # ss)) = [] # rest"
proof -
  have "case to_chunks_loop encode max_tokens ss ['''' ] [0] [s] (sentence_tokens encode s) [[]] of
          (chunks', tokens', cc', ct', members') \<Rightarrow> \<exists>rest. members' = [] # rest"
    by (rule to_chunks_loop_invariant) auto
  with assms show ?thesis
    by (auto simp: to_chunks_pass_def members_of_def sentence_tokens_def split: prod.splits)
qed

text \<open>Every chunk after the first has a member.\<close>

lemma to_chunks_later_chunks_nonempty:
  "list_all (\<lambda>g. g \<noteq> []) (tl (members_of (to_chunks_pass encode max_tokens sentences)))"
  by (rule to_chunks_pass_later_nonempty)

subsection \<open>Chunks and the budget\<close>

lemma to_chunks_pass_lengths:
  "length (tokens_of (to_chunks_pass encode max_tokens ss)) =
     length (members_of (to_chunks_pass encode max_tokens ss))"
  by (simp add: to_chunks_pass_counts)

lemma naive_pass_lengths:
  "length (tokens_of (naive_pass encode max_tokens ss)) =
     length (members_of (naive_pass encode max_tokens ss))"
  by (simp add: naive_pass_counts)

text \<open>
  \<^verbatim>\<open>to_chunks\<close> keeps the budget, for every budget: a chunk with a member whose
  reported count exceeds \<open>max_tokens\<close> consists of one sentence whose own count
  exceeds \<open>max_tokens\<close>, and a chunk of two or more sentences reports at most
  \<open>max_tokens\<close>.
\<close>

lemma to_chunks_pass_over_budget:
  assumes i: "i < length (members_of (to_chunks_pass encode max_tokens ss))"
  shows "(members_of (to_chunks_pass encode max_tokens ss) ! i \<noteq> [] \<and>
          tokens_of (to_chunks_pass encode max_tokens ss) ! i > max_tokens \<longrightarrow>
           (\<exists>s. members_of (to_chunks_pass encode max_tokens ss) ! i = [s] \<and>
                sentence_tokens encode s > max_tokens)) \<and>
         (2 \<le> length (members_of (to_chunks_pass encode max_tokens ss) ! i) \<longrightarrow>
           tokens_of (to_chunks_pass encode max_tokens ss) ! i \<le> max_tokens)"
proof -
  let ?g = "members_of (to_chunks_pass encode max_tokens ss) ! i"
  have count: "tokens_of (to_chunks_pass encode max_tokens ss) ! i = chunk_token_sum encode ?g"
    using i by (simp add: to_chunks_pass_counts)
  have small: "chunk_token_sum encode ?g \<le> max_tokens \<or> length ?g \<le> 1"
    using to_chunks_pass_budget[of encode max_tokens ss] i by (simp add: list_all_length)
  show ?thesis
  proof (cases ?g)
    case Nil
    then show ?thesis by simp
  next
    case (Cons s rest)
    show ?thesis
    proof (cases rest)
      case Nil
      with Cons count show ?thesis by (simp add: chunk_token_sum_simps)
    next
      case (Cons t rest')
      with \<open>?g = s # rest\<close> small count show ?thesis by simp
    qed
  qed
qed

text \<open>
  The example of a budget of 6: the chunk of \<open>ab\<close> and \<open>cd\<close> reports 6, and the chunk
  that reports 8 is the one sentence \<open>efghijk\<close>.
\<close>

lemma to_chunks_budget_example:
  "members_of (to_chunks_pass (\<lambda>s. s) 6 [''ab'', ''cd'', ''efghijk'', ''x'']) =
     [[''ab'', ''cd''], [''efghijk''], [''x'']] \<and>
   tokens_of (to_chunks_pass (\<lambda>s. s) 6 [''ab'', ''cd'', ''efghijk'', ''x'']) = [6, 8, 2] \<and>
   sentence_tokens (\<lambda>s. s) ''efghijk'' = 8"
  by (simp add: to_chunks_pass_def members_of_def tokens_of_def sentence_tokens_def)

text \<open>
  With a negative budget \<^verbatim>\<open>to_chunks\<close> emits the empty running chunk first, and
  its count 0 is over the budget: the chunk without a member is the only one outside
  the statement above.
\<close>

lemma to_chunks_negative_budget:
  "to_chunks_pass (\<lambda>s. s) (- 1) [''ab''] = (['''', ''ab''], [0, 3], [[], [''ab'']])"
  by (simp add: to_chunks_pass_def)

text \<open>
  The naive chunker: an emitted chunk has a member, none of its members measures more
  than \<open>max_tokens\<close>, and their measured counts sum to at most \<open>max_tokens\<close>; but
  its reported count is only known to be at most \<open>max_tokens + 1\<close>.
\<close>

lemma naive_pass_within_budget:
  assumes j: "j < length (members_of (naive_pass encode max_tokens ss))"
  shows "members_of (naive_pass encode max_tokens ss) ! j \<noteq> [] \<and>
         list_all (\<lambda>s. naive_n_token encode s \<le> max_tokens) (members_of (naive_pass encode max_tokens ss) ! j) \<and>
         naive_measured_sum encode (members_of (naive_pass encode max_tokens ss) ! j) \<le> max_tokens \<and>
         tokens_of (naive_pass encode max_tokens ss) ! j \<le> max_tokens + 1"
proof -
  let ?g = "members_of (naive_pass encode max_tokens ss) ! j"
  have count: "tokens_of (naive_pass encode max_tokens ss) ! j = naive_reported_sum encode ?g"
    using j by (simp add: naive_pass_counts)
  have "?g \<noteq> [] \<and> naive_within encode max_tokens ?g"
    using naive_pass_budget[of encode max_tokens ss] j by (simp add: list_all_length)
  with count show ?thesis by (auto simp: naive_within_def)
qed

text \<open>
  Claim C3 fails on \<^verbatim>\<open>naive_token_splitter\<close>: line 249 tests
  \<^verbatim>\<open>total_tokens + n_token > max_tokens\<close>, but line 259 adds \<^verbatim>\<open>n_token + 1\<close>.
  On the text \<open>a. b. c\<close> with \<open>minimal_length = 0\<close>, a budget of 5 and one token per
  character, each sentence measures 2; the table has one chunk, \<open>a. b.\<close>, of the two
  sentences \<open>a\<close> and \<open>b\<close>, and it reports 6 tokens.
\<close>

theorem naive_chunk_reports_over_budget:
  "naive_split ''a. b. c'' 0 = [''a'', ''b'', ''c''] \<and>
   naive_token_splitter (\<lambda>s. s) ''a. b. c'' 5 0 =
     [\<lparr>row_chunks = ''a. b.'', row_n_tokens = 6, row_embeddings = (None :: nat option)\<rparr>] \<and>
   tokens_of (naive_pass (\<lambda>s. s) 5 [''a'', ''b'', ''c'']) ! 0 > 5 \<and>
   members_of (naive_pass (\<lambda>s. s) 5 [''a'', ''b'', ''c'']) ! 0 = [''a'', ''b''] \<and>
   naive_n_token (\<lambda>s. s) ''a'' = 2 \<and> naive_n_token (\<lambda>s. s) ''b'' = 2"
  by (simp add: naive_token_splitter_def naive_split_def naive_pass_def members_of_def
      tokens_of_def chunks_of_def naive_n_token_def)

subsection \<open>The loop of \<^verbatim>\<open>group_by_semantics\<close>\<close>

text \<open>
  The recursion equation of the loop is used one iteration at a time, so it is not a
  rewrite rule.
\<close>

declare group_loop.simps [simp del]

lemma segment_strings_simps:
  "seg \<noteq> [] \<Longrightarrow> segment_strings doc_text chunks docs (seg @ [i]) =
     segment_strings doc_text chunks docs seg @ [doc_text (docs ! i)]"
  "segment_strings doc_text chunks docs [i] = [chunks ! i]"
  "segment_strings doc_text chunks docs seg \<noteq> []"
  "str_join '' '' (segment_strings doc_text chunks docs seg) = segment_text doc_text chunks docs seg"
  by (simp_all add: segment_strings_def segment_text_def)

lemma group_loop_follows_pivot:
  assumes "end_idx \<le> length docs" and "seg \<noteq> []" and "hd seg = start_idx"
  shows "(case group_loop similarity doc_text threshold chunks docs segments start_idx end_idx
                (segment_strings doc_text chunks docs seg) compared of
            (segments', segment', compared') \<Rightarrow>
              (if segment' \<noteq> [] then segments' @ [str_join '' '' segment'] else segments', compared'))
         = (segments @ map (segment_text doc_text chunks docs)
               (pivot_groups similarity threshold docs start_idx seg [end_idx..<length docs]),
            compared @ pivot_comparisons similarity threshold docs start_idx [end_idx..<length docs])"
  using assms
proof (induction "length docs - end_idx" arbitrary: end_idx start_idx seg segments compared)
  case 0
  then have "end_idx = length docs" by simp
  then show ?case
    by (simp add: group_loop.simps[of _ _ _ _ docs _ _ "length docs"] segment_strings_simps)
next
  case (Suc k)
  then have less: "end_idx < length docs" by simp
  then have range: "[end_idx..<length docs] = end_idx # [Suc end_idx..<length docs]"
    by (simp add: upt_conv_Cons)
  have k: "k = length docs - Suc end_idx" using Suc.hyps(2) by simp
  show ?case
  proof (cases "similarity (docs ! start_idx) (docs ! end_idx) \<ge> threshold")
    case True
    have "seg @ [end_idx] \<noteq> []" "hd (seg @ [end_idx]) = start_idx"
      using Suc.prems by simp_all
    from Suc.hyps(1)[OF k _ this, of segments "compared @ [(start_idx, end_idx)]"] less True Suc.prems
    show ?thesis
      by (simp add: group_loop.simps[of _ _ _ _ docs _ _ end_idx] range segment_strings_simps)
  next
    case False
    have "[end_idx] \<noteq> []" "hd [end_idx] = end_idx" by simp_all
    from Suc.hyps(1)[OF k _ this, of "segments @ [segment_text doc_text chunks docs seg]"
        "compared @ [(start_idx, end_idx)]"] less False Suc.prems
    show ?thesis
      by (simp add: group_loop.simps[of _ _ _ _ docs _ _ end_idx] range segment_strings_simps)
  qed
qed

lemma group_pass_follows_pivot:
  assumes "chunks \<noteq> []"
  shows "group_pass similarity doc_text nlp threshold chunks =
     Inr (map (segment_text doc_text chunks (map nlp chunks))
            (pivot_groups similarity threshold (map nlp chunks) 0 [0] [1..<length chunks]),
          pivot_comparisons similarity threshold (map nlp chunks) 0 [1..<length chunks])"
proof -
  obtain segments segment compared where
    loop: "group_loop similarity doc_text threshold chunks (map nlp chunks) [] 0 1 [chunks ! 0] []
             = (segments, segment, compared)"
    by (metis prod_cases3)
  have "1 \<le> length (map nlp chunks)" using assms by (cases chunks) simp_all
  from group_loop_follows_pivot[OF this, of "[0]" 0 similarity doc_text threshold chunks "[]" "[]"]
  have "(if segment \<noteq> [] then segments @ [str_join '' '' segment] else segments, compared) =
      (map (segment_text doc_text chunks (map nlp chunks))
         (pivot_groups similarity threshold (map nlp chunks) 0 [0] [1..<length chunks]),
       pivot_comparisons similarity threshold (map nlp chunks) 0 [1..<length chunks])"
    using loop by (simp add: segment_strings_simps)
  with assms loop show ?thesis
    by (simp add: group_pass_def)
qed

subsection \<open>Pivot comparisons\<close>

text \<open>
  Claim C6. For every list of chunks and every threshold, the pass of
  \<^verbatim>\<open>group_by_semantics\<close> makes the comparisons of \<open>pivot_comparisons\<close> and returns
  the segments of \<open>pivot_groups\<close>: every candidate, from the second chunk on, is
  compared once with the chunk that opened the current segment, it is appended to the
  segment exactly when the similarity is at least the threshold, and otherwise it
  opens a new segment and is the pivot of the comparisons that follow. (With no chunk
  the pass raises before any comparison.)
\<close>

theorem grouping_compares_with_pivot:
  "group_pass similarity doc_text nlp threshold chunks =
     (if chunks = [] then Inl IndexError
      else Inr (map (segment_text doc_text chunks (map nlp chunks))
                  (pivot_groups similarity threshold (map nlp chunks) 0 [0] [1..<length chunks]),
                pivot_comparisons similarity threshold (map nlp chunks) 0 [1..<length chunks]))"
  by (simp add: group_pass_follows_pivot) (simp add: group_pass_def)

text \<open>
  The theorem on three chunks of lengths 1, 3 and 5 with the threshold 0.8. The
  second is as similar to the first as the threshold asks and joins it; the third is
  compared with the first, not with the second (which it would join), and opens a
  new segment.
\<close>

lemma upt_1_3: "[1..<3] = [1, 2::nat]"
  by (simp add: upt_rec)

theorem grouping_compares_with_pivot_witness:
  "group_pass length_similarity (\<lambda>d. d) (\<lambda>c. c) (8 / 10) [''a'', ''bbb'', ''ccccc''] =
     Inr ([''a bbb'', ''ccccc''], [(0, 1), (0, 2)]) \<and>
   length_similarity ''bbb'' ''ccccc'' \<ge> 8 / 10"
  using grouping_compares_with_pivot[of length_similarity "\<lambda>d. d" "\<lambda>c. c" "8 / 10" "[''a'', ''bbb'', ''ccccc'']"]
  by (simp add: upt_1_3 length_similarity_def segment_text_def)

text \<open>
  The left side of every comparison is the index that opened a segment: no comparison
  is made with a chunk that joined a segment.
\<close>

lemma pivot_groups_first:
  "seg \<noteq> [] \<Longrightarrow>
   \<exists>g gs. pivot_groups similarity threshold docs pivot seg candidates = g # gs \<and> hd g = hd seg"
proof (induction candidates arbitrary: pivot seg)
  case Nil
  then show ?case by simp
next
  case (Cons c candidates)
  show ?case
  proof (cases "similarity (docs ! pivot) (docs ! c) \<ge> threshold")
    case True
    have "seg @ [c] \<noteq> []" by simp
    from Cons.IH[OF this, of pivot] True Cons.prems show ?thesis by simp
  next
    case False
    then show ?thesis by simp
  qed
qed

lemma pivot_comparisons_with_openers:
  "seg \<noteq> [] \<Longrightarrow> hd seg = pivot \<Longrightarrow>
   fst ` set (pivot_comparisons similarity threshold docs pivot candidates) \<subseteq>
   hd ` set (pivot_groups similarity threshold docs pivot seg candidates)"
proof (induction candidates arbitrary: pivot seg)
  case Nil
  then show ?case by simp
next
  case (Cons c candidates)
  show ?case
  proof (cases "similarity (docs ! pivot) (docs ! c) \<ge> threshold")
    case True
    have seg': "seg @ [c] \<noteq> []" "hd (seg @ [c]) = pivot" using Cons.prems by simp_all
    from pivot_groups_first[OF seg'(1), of similarity threshold docs pivot candidates] seg'(2)
    have "pivot \<in> hd ` set (pivot_groups similarity threshold docs pivot (seg @ [c]) candidates)"
      by force
    with Cons.IH[OF seg'] True show ?thesis by simp
  next
    case False
    have "fst ` set (pivot_comparisons similarity threshold docs c candidates) \<subseteq>
          hd ` set (pivot_groups similarity threshold docs c [c] candidates)"
      by (rule Cons.IH) simp_all
    with False Cons.prems show ?thesis by auto
  qed
qed

subsection \<open>No chunk and one chunk\<close>

text \<open>
  Claim C5 fails on an input of zero chunks: line 89 reads \<^verbatim>\<open>self.chunks[0]\<close>
  before the loop, so \<^verbatim>\<open>group_by_semantics\<close> raises \<open>IndexError\<close> instead of
  returning zero segments.
\<close>

theorem grouping_no_chunks_raises:
  "fst (group_by_semantics sents encode similarity doc_text nlp (ChunkList []) max_tokens
          threshold self) = Inl IndexError"
  by (simp add: group_by_semantics_def group_pass_def)

text \<open>The same when \<^verbatim>\<open>data\<close> is absent and the processor holds no chunk.\<close>

lemma grouping_no_chunks_left_raises:
  "self_chunks self = [] \<Longrightarrow>
   fst (group_by_semantics sents encode similarity doc_text nlp NoData max_tokens threshold self)
     = Inl IndexError"
  by (simp add: group_by_semantics_def group_pass_def)

text \<open>One chunk gives one segment, the chunk itself, with no comparison.\<close>

lemma grouping_one_chunk:
  "group_pass similarity doc_text nlp threshold [chunk] = Inr ([chunk], [])"
  by (simp add: group_pass_def group_loop.simps)

subsection \<open>Token counts that are already there\<close>

text \<open>When the list and \<^verbatim>\<open>n_tokens\<close> differ in length there is no table.\<close>

lemma stale_token_counts_of_other_length:
  assumes "self_n_tokens self \<noteq> []" and "new_chunks \<noteq> []"
    and "length new_chunks \<noteq> length (self_n_tokens self)"
  shows "fst (to_dataframe sents encode similarity doc_text nlp (ChunkList new_chunks)
                max_tokens threshold self) = Inl ValueError"
  using assms
  by (auto simp: group_by_semantics_def to_dataframe_def DataFrame_def group_pass_follows_pivot
      Let_def split: sum.splits prod.splits)

text \<open>
  Claim C10, as amended. When \<^verbatim>\<open>n_tokens\<close> is not empty and
  \<^verbatim>\<open>group_by_semantics\<close> is called with a list of chunks, the processor keeps
  \<^verbatim>\<open>n_tokens\<close> as it was and takes the list as its chunks. When the list is not
  empty and as long as \<^verbatim>\<open>n_tokens\<close>, \<^verbatim>\<open>to_dataframe\<close>, called with the list
  or called afterwards without data, pairs the new chunks with the old counts row by
  row. When the list is not empty and of another length than \<^verbatim>\<open>n_tokens\<close>,
  \<^verbatim>\<open>to_dataframe\<close> raises \<open>ValueError\<close> and there is no table.
\<close>

theorem stale_token_counts_kept:
  assumes "self_n_tokens self \<noteq> []"
  shows "self_n_tokens (snd (group_by_semantics sents encode similarity doc_text nlp
             (ChunkList new_chunks) max_tokens threshold self)) = self_n_tokens self \<and>
         self_chunks (snd (group_by_semantics sents encode similarity doc_text nlp
             (ChunkList new_chunks) max_tokens threshold self)) = new_chunks \<and>
         (new_chunks \<noteq> [] \<and> length new_chunks = length (self_n_tokens self) \<longrightarrow>
            fst (to_dataframe sents encode similarity doc_text nlp (ChunkList new_chunks)
                   max_tokens threshold self) =
              Inr (map (\<lambda>(c, n). \<lparr>row_chunks = c, row_n_tokens = n, row_embeddings = None\<rparr>)
                     (zip new_chunks (self_n_tokens self)))) \<and>
         (length new_chunks = length (self_n_tokens self) \<longrightarrow>
            fst (to_dataframe sents encode similarity doc_text nlp NoData max_tokens threshold
                   (snd (group_by_semantics sents encode similarity doc_text nlp
                           (ChunkList new_chunks) max_tokens threshold self))) =
              Inr (map (\<lambda>(c, n). \<lparr>row_chunks = c, row_n_tokens = n, row_embeddings = None\<rparr>)
                     (zip new_chunks (self_n_tokens self)))) \<and>
         (new_chunks \<noteq> [] \<and> length new_chunks \<noteq> length (self_n_tokens self) \<longrightarrow>
            fst (to_dataframe sents encode similarity doc_text nlp (ChunkList new_chunks)
                   max_tokens threshold self) = Inl ValueError)"
  using assms
  by (auto simp: group_by_semantics_def to_dataframe_def DataFrame_def group_pass_follows_pivot
      Let_def split: sum.splits prod.splits)

text \<open>
  The theorem on a processor that holds the counts 7 and 7 of two earlier chunks. Two
  new chunks, of 19 tokens and of 1 token, are paired with 7 and 7; three new chunks
  give no table.
\<close>

theorem stale_token_counts_kept_witness:
  "self_n_tokens \<lparr>self_text = '''', self_sequences = [], self_chunks = [''old one'', ''old two''],
      self_n_tokens = [7, 7], self_segments = [], self_dataframe = ([] :: nat row list)\<rparr> \<noteq> [] \<and>
   fst (to_dataframe (\<lambda>t. [t]) (\<lambda>s. s) length_similarity (\<lambda>d. d) (\<lambda>c. c)
          (ChunkList [''a much longer chunk'', ''x'']) 120 (8 / 10)
          \<lparr>self_text = '''', self_sequences = [], self_chunks = [''old one'', ''old two''],
           self_n_tokens = [7, 7], self_segments = [], self_dataframe = ([] :: nat row list)\<rparr>) =
     Inr [\<lparr>row_chunks = ''a much longer chunk'', row_n_tokens = 7, row_embeddings = None\<rparr>,
          \<lparr>row_chunks = ''x'', row_n_tokens = 7, row_embeddings = None\<rparr>] \<and>
   length [''a much longer chunk'', ''x''] = length [7, 7 :: int] \<and>
   map (\<lambda>chunk. int (length ((\<lambda>s. s) chunk))) [''a much longer chunk'', ''x''] = [19, 1] \<and>
   length [''p'', ''q'', ''r''] \<noteq> length [7, 7 :: int] \<and>
   fst (to_dataframe (\<lambda>t. [t]) (\<lambda>s. s) length_similarity (\<lambda>d. d) (\<lambda>c. c)
          (ChunkList [''p'', ''q'', ''r'']) 120 (8 / 10)
          \<lparr>self_text = '''', self_sequences = [], self_chunks = [''old one'', ''old two''],
           self_n_tokens = [7, 7], self_segments = [], self_dataframe = ([] :: nat row list)\<rparr>) =
     Inl ValueError"
  using stale_token_counts_kept[of
      "\<lparr>self_text = '''', self_sequences = [], self_chunks = [''old one'', ''old two''],
        self_n_tokens = [7, 7], self_segments = [], self_dataframe = ([] :: nat row list)\<rparr>"
      "\<lambda>t. [t]" "\<lambda>s. s" length_similarity "\<lambda>d. d" "\<lambda>c. c" "[''a much longer chunk'', ''x'']" 120 "8 / 10"]
    stale_token_counts_kept[of
      "\<lparr>self_text = '''', self_sequences = [], self_chunks = [''old one'', ''old two''],
        self_n_tokens = [7, 7], self_segments = [], self_dataframe = ([] :: nat row list)\<rparr>"
      "\<lambda>t. [t]" "\<lambda>s. s" length_similarity "\<lambda>d. d" "\<lambda>c. c" "[''p'', ''q'', ''r'']" 120 "8 / 10"]
  by simp

text \<open>
  Claim C10 as stated fails when the new list is of another length than the counts:
  with the counts 7 and 7 and the one new chunk \<open>x\<close>, \<^verbatim>\<open>n_tokens\<close> is kept, but
  \<^verbatim>\<open>to_dataframe\<close> raises \<open>ValueError\<close> and pairs nothing.
\<close>

theorem stale_token_counts_not_paired:
  "self_n_tokens (snd (to_dataframe (\<lambda>t. [t]) (\<lambda>s. s) length_similarity (\<lambda>d. d) (\<lambda>c. c)
          (ChunkList [''x'']) 120 (8 / 10)
          \<lparr>self_text = '''', self_sequences = [], self_chunks = [''old one'', ''old two''],
           self_n_tokens = [7, 7], self_segments = [], self_dataframe = ([] :: nat row list)\<rparr>)) =
     [7, 7] \<and>
   fst (to_dataframe (\<lambda>t. [t]) (\<lambda>s. s) length_similarity (\<lambda>d. d) (\<lambda>c. c)
          (ChunkList [''x'']) 120 (8 / 10)
          \<lparr>self_text = '''', self_sequences = [], self_chunks = [''old one'', ''old two''],
           self_n_tokens = [7, 7], self_segments = [], self_dataframe = ([] :: nat row list)\<rparr>) =
     Inl ValueError"
  by (simp add: to_dataframe_def group_by_semantics_def DataFrame_def grouping_one_chunk)

subsection \<open>The two fetch loops\<close>

text \<open>A service whose answer does not depend on the attempt answers the same with any client.\<close>

lemma request_fixed_response:
  "request (\<lambda>input attempt. response input) input retries attempt = response input"
  by (induction retries arbitrary: attempt) (simp_all split: sum.splits)

lemma create_embedding_fixed_response:
  "create_embedding client' (\<lambda>input attempt. response input) row = response (row_chunks row)"
  by (simp add: create_embedding_def request_fixed_response)

text \<open>The sequential loop: all vectors in the order of the rows, or an error.\<close>

lemma all_succeed_values:
  "\<forall>x\<in>set xs. \<not> isl x \<Longrightarrow> xs = map Inr (map projr xs)"
  by (induction xs) (auto simp: isl_def)

lemma fetch_in_order_all_succeed:
  "map (create_embedding client' service) rows = map Inr vs \<Longrightarrow>
   fetch_in_order client' service rows acc = Inr (acc @ vs)"
proof (induction rows arbitrary: acc vs)
  case Nil
  then show ?case by simp
next
  case (Cons row rows)
  then obtain v vs' where vs: "vs = v # vs'" by (cases vs) auto
  with Cons.prems have "create_embedding client' service row = Inr v"
    and "map (create_embedding client' service) rows = map Inr vs'" by simp_all
  with Cons.IH[of vs' "acc @ [v]"] vs show ?case by simp
qed

lemma fetch_in_order_one_fails:
  "\<exists>row\<in>set rows. isl (create_embedding client' service row) \<Longrightarrow>
   \<exists>e. fetch_in_order client' service rows acc = Inl e"
proof (induction rows arbitrary: acc)
  case Nil
  then show ?case by simp
next
  case (Cons row rows)
  show ?case
  proof (cases "create_embedding client' service row")
    case (Inl e)
    then show ?thesis by simp
  next
    case (Inr v)
    with Cons.prems have "\<exists>row\<in>set rows. isl (create_embedding client' service row)" by auto
    from Cons.IH[OF this, of "acc @ [v]"] Inr show ?thesis by simp
  qed
qed

text \<open>
  The gathered tasks: when each task completes once in the schedule, the vectors are
  in the order of the tasks whatever the order of completion, or an error is raised.
\<close>

lemma gather_loop_all_succeed:
  "length slots = length vs \<Longrightarrow>
   \<exists>slots'. gather_loop schedule (map Inr vs) slots = Inr slots' \<and> length slots' = length vs \<and>
     (\<forall>j<length vs. slots' ! j = (if j \<in> set schedule then Some (vs ! j) else slots ! j))"
proof (induction schedule arbitrary: slots)
  case Nil
  then show ?case by simp
next
  case (Cons i schedule)
  show ?case
  proof (cases "i < length vs")
    case True
    have "length (slots[i := Some (vs ! i)]) = length vs" using Cons.prems by simp
    from Cons.IH[OF this] obtain slots' where
      run: "gather_loop schedule (map Inr vs) (slots[i := Some (vs ! i)]) = Inr slots'"
      and len: "length slots' = length vs"
      and at: "\<forall>j<length vs. slots' ! j =
                 (if j \<in> set schedule then Some (vs ! j) else slots[i := Some (vs ! i)] ! j)"
      by blast
    have "\<forall>j<length vs. slots' ! j = (if j \<in> set (i # schedule) then Some (vs ! j) else slots ! j)"
      using at Cons.prems by (auto simp: nth_list_update)
    with run len True show ?thesis by simp
  next
    case False
    from Cons.IH[OF Cons.prems] obtain slots' where
      run: "gather_loop schedule (map Inr vs) slots = Inr slots'"
      and len: "length slots' = length vs"
      and at: "\<forall>j<length vs. slots' ! j = (if j \<in> set schedule then Some (vs ! j) else slots ! j)"
      by blast
    have "\<forall>j<length vs. slots' ! j = (if j \<in> set (i # schedule) then Some (vs ! j) else slots ! j)"
      using at False by auto
    with run len False show ?thesis by simp
  qed
qed

lemma gather_all_succeed:
  assumes "set schedule = {0..<length vs}"
  shows "gather schedule (map Inr vs) = Some (Inr vs)"
proof -
  have "length (replicate (length vs) (None :: 'a option)) = length vs" by simp
  from gather_loop_all_succeed[OF this, of schedule] obtain slots' where
    run: "gather_loop schedule (map Inr vs) (replicate (length vs) None) = Inr slots'"
    and len: "length slots' = length vs"
    and at: "\<forall>j<length vs. slots' ! j =
               (if j \<in> set schedule then Some (vs ! j) else replicate (length vs) None ! j)"
    by blast
  have "slots' = map Some vs"
    using len at assms by (intro nth_equalityI) simp_all
  with run show ?thesis
    by (simp add: gather_def list_all_iff comp_def)
qed

lemma gather_loop_one_fails:
  "i \<in> set schedule \<Longrightarrow> i < length tasks \<Longrightarrow> isl (tasks ! i) \<Longrightarrow>
   \<exists>e. gather_loop schedule tasks slots = Inl e"
proof (induction schedule arbitrary: slots)
  case Nil
  then show ?case by simp
next
  case (Cons k schedule)
  show ?case
  proof (cases "k < length tasks")
    case True
    show ?thesis
    proof (cases "tasks ! k")
      case (Inl e)
      with True show ?thesis by simp
    next
      case (Inr v)
      with Cons.prems have "i \<in> set schedule" by auto
      from Cons.IH[OF this Cons.prems(2,3), of "slots[k := Some v]"] True Inr
      show ?thesis by simp
    qed
  next
    case False
    with Cons.prems have "i \<in> set schedule" by auto
    from Cons.IH[OF this Cons.prems(2,3), of slots] False show ?thesis by simp
  qed
qed

lemma gather_one_fails:
  assumes "set schedule = {0..<length tasks}" and "\<exists>x\<in>set tasks. isl x"
  shows "\<exists>e. gather schedule tasks = Some (Inl e)"
proof -
  from assms(2) obtain i where i: "i < length tasks" "isl (tasks ! i)"
    by (auto simp: in_set_conv_nth)
  with assms(1) have "i \<in> set schedule" by simp
  from gather_loop_one_fails[OF this i] obtain e where
    "gather_loop schedule tasks (replicate (length tasks) None) = Inl e" by blast
  then show ?thesis by (simp add: gather_def)
qed

subsection \<open>The two fetchers\<close>

text \<open>
  Each fetcher on the table the processor holds: when every request succeeds the
  embeddings column is assigned, and when one fails the fetcher raises and the
  processor, with its table, is as before.
\<close>

lemma assign_embeddings_map:
  "assign_embeddings df (map f df) = map (\<lambda>row. row\<lparr>row_embeddings := Some (f row)\<rparr>) df"
  by (induction df) (simp_all add: assign_embeddings_def)

lemma embeddings_all_succeed:
  assumes "map (create_embedding (OpenAI default_max_retries) service) (self_dataframe self) =
             map Inr (map f (self_dataframe self))"
  shows "embeddings default_max_retries service sents encode similarity doc_text nlp NoData
           max_tokens threshold self =
         (Inr (map (\<lambda>row. row\<lparr>row_embeddings := Some (f row)\<rparr>) (self_dataframe self)),
          self\<lparr>self_dataframe :=
                 map (\<lambda>row. row\<lparr>row_embeddings := Some (f row)\<rparr>) (self_dataframe self)\<rparr>)"
  using fetch_in_order_all_succeed[OF assms, of "[]"]
  by (simp add: embeddings_def assign_embeddings_map)

lemma embeddings_one_fails:
  assumes "\<exists>row\<in>set (self_dataframe self).
             isl (create_embedding (OpenAI default_max_retries) service row)"
  shows "\<exists>e. embeddings default_max_retries service sents encode similarity doc_text nlp NoData
           max_tokens threshold self = (Inl e, self)"
  using fetch_in_order_one_fails[OF assms, of "[]"]
  by (auto simp: embeddings_def)

lemma async_embeddings_all_succeed:
  assumes tasks: "map (create_embedding (AsyncOpenAI 1) service) (self_dataframe self) =
             map Inr (map f (self_dataframe self))"
    and schedule: "set schedule = {0..<length (self_dataframe self)}"
  shows "async_embeddings schedule service sents encode similarity doc_text nlp NoData
           max_tokens threshold self =
         Some (Inr (map (\<lambda>row. row\<lparr>row_embeddings := Some (f row)\<rparr>) (self_dataframe self)),
          self\<lparr>self_dataframe :=
                 map (\<lambda>row. row\<lparr>row_embeddings := Some (f row)\<rparr>) (self_dataframe self)\<rparr>)"
proof -
  have "set schedule = {0..<length (map f (self_dataframe self))}" using schedule by simp
  from gather_all_succeed[OF this]
  have "gather schedule (map (create_embedding (AsyncOpenAI 1) service) (self_dataframe self)) =
          Some (Inr (map f (self_dataframe self)))"
    unfolding tasks .
  then show ?thesis
    unfolding async_embeddings_def by (simp add: assign_embeddings_map)
qed

lemma async_embeddings_one_fails:
  assumes fails: "\<exists>row\<in>set (self_dataframe self). isl (create_embedding (AsyncOpenAI 1) service row)"
    and schedule: "set schedule = {0..<length (self_dataframe self)}"
  shows "\<exists>e. async_embeddings schedule service sents encode similarity doc_text nlp NoData
           max_tokens threshold self = Some (Inl e, self)"
proof -
  let ?tasks = "map (create_embedding (AsyncOpenAI 1) service) (self_dataframe self)"
  have "\<exists>x\<in>set ?tasks. isl x" using fails by simp
  moreover have "set schedule = {0..<length ?tasks}" using schedule by simp
  ultimately obtain e where "gather schedule ?tasks = Some (Inl e)"
    using gather_one_fails by blast
  then show ?thesis
    unfolding async_embeddings_def by simp
qed

subsection \<open>Sequential and concurrent fetch\<close>

text \<open>
  Claim C7. For every table the processor holds and every fixed mapping \<open>response\<close>
  from the text of a row to the answer of the service, and whatever the order in
  which the concurrent requests complete (each completes): \<^verbatim>\<open>async_embeddings\<close>
  returns, and it leaves the processor with the same table as \<^verbatim>\<open>embeddings\<close>; it
  returns a table exactly when \<^verbatim>\<open>embeddings\<close> does, and the same one; and when
  every answer is a vector, the table has the rows in their order, each with the
  vector mapped to its text.
\<close>

theorem fetch_modes_agree:
  assumes "set schedule = {0..<length (self_dataframe self)}"
  shows "\<exists>r. async_embeddings schedule (\<lambda>input attempt. response input) sents encode similarity
                 doc_text nlp NoData max_tokens threshold self =
               Some (r, snd (embeddings default_max_retries (\<lambda>input attempt. response input) sents
                               encode similarity doc_text nlp NoData max_tokens threshold self)) \<and>
              (\<forall>df. (r = Inr df) =
                    (fst (embeddings default_max_retries (\<lambda>input attempt. response input) sents
                            encode similarity doc_text nlp NoData max_tokens threshold self) = Inr df)) \<and>
              ((\<forall>row\<in>set (self_dataframe self). \<not> isl (response (row_chunks row))) \<longrightarrow>
                 r = Inr (map (\<lambda>row. row\<lparr>row_embeddings := Some (projr (response (row_chunks row)))\<rparr>)
                            (self_dataframe self)))"
proof (cases "\<forall>row\<in>set (self_dataframe self). \<not> isl (response (row_chunks row))")
  case True
  let ?f = "\<lambda>row. projr (response (row_chunks row))"
  have tasks: "map (create_embedding client' (\<lambda>input attempt. response input)) (self_dataframe self) =
      map Inr (map ?f (self_dataframe self))" for client'
    using True by (simp add: create_embedding_fixed_response)
  show ?thesis
    using True
    by (simp add: async_embeddings_all_succeed[OF tasks assms] embeddings_all_succeed[OF tasks])
next
  case False
  then have fails: "\<exists>row\<in>set (self_dataframe self).
      isl (create_embedding client' (\<lambda>input attempt. response input) row)" for client'
    by (simp add: create_embedding_fixed_response)
  obtain e1 where "embeddings default_max_retries (\<lambda>input attempt. response input) sents
      encode similarity doc_text nlp NoData max_tokens threshold self = (Inl e1, self)"
    using embeddings_one_fails[OF fails] by blast
  moreover obtain e2 where "async_embeddings schedule (\<lambda>input attempt. response input) sents
      encode similarity doc_text nlp NoData max_tokens threshold self = Some (Inl e2, self)"
    using async_embeddings_one_fails[OF fails assms] by blast
  ultimately show ?thesis using False by simp
qed

text \<open>
  The theorem on a table of three rows, a service that answers a text with its length,
  and the requests completing in the order 2, 0, 1.
\<close>

theorem fetch_modes_agree_witness:
  "set [2, 0, 1] = {0..<length [\<lparr>row_chunks = ''a'', row_n_tokens = 1, row_embeddings = None\<rparr>,
       \<lparr>row_chunks = ''bb'', row_n_tokens = 1, row_embeddings = None\<rparr>,
       \<lparr>row_chunks = ''ccc'', row_n_tokens = 1, row_embeddings = (None :: nat option)\<rparr>]} \<and>
   async_embeddings [2, 0, 1] (\<lambda>input attempt. Inr (length input)) (\<lambda>t. [t]) (\<lambda>s. s)
       length_similarity (\<lambda>d. d) (\<lambda>c. c) NoData 120 (8 / 10)
       \<lparr>self_text = '''', self_sequences = [], self_chunks = [], self_n_tokens = [],
        self_segments = [], self_dataframe =
          [\<lparr>row_chunks = ''a'', row_n_tokens = 1, row_embeddings = None\<rparr>,
           \<lparr>row_chunks = ''bb'', row_n_tokens = 1, row_embeddings = None\<rparr>,
           \<lparr>row_chunks = ''ccc'', row_n_tokens = 1, row_embeddings = None\<rparr>]\<rparr> =
     Some (embeddings 2 (\<lambda>input attempt. Inr (length input)) (\<lambda>t. [t]) (\<lambda>s. s)
       length_similarity (\<lambda>d. d) (\<lambda>c. c) NoData 120 (8 / 10)
       \<lparr>self_text = '''', self_sequences = [], self_chunks = [], self_n_tokens = [],
        self_segments = [], self_dataframe =
          [\<lparr>row_chunks = ''a'', row_n_tokens = 1, row_embeddings = None\<rparr>,
           \<lparr>row_chunks = ''bb'', row_n_tokens = 1, row_embeddings = None\<rparr>,
           \<lparr>row_chunks = ''ccc'', row_n_tokens = 1, row_embeddings = None\<rparr>]\<rparr>) \<and>
   fst (embeddings 2 (\<lambda>input attempt. Inr (length input)) (\<lambda>t. [t]) (\<lambda>s. s)
       length_similarity (\<lambda>d. d) (\<lambda>c. c) NoData 120 (8 / 10)
       \<lparr>self_text = '''', self_sequences = [], self_chunks = [], self_n_tokens = [],
        self_segments = [], self_dataframe =
          [\<lparr>row_chunks = ''a'', row_n_tokens = 1, row_embeddings = None\<rparr>,
           \<lparr>row_chunks = ''bb'', row_n_tokens = 1, row_embeddings = None\<rparr>,
           \<lparr>row_chunks = ''ccc'', row_n_tokens = 1, row_embeddings = None\<rparr>]\<rparr>) =
     Inr [\<lparr>row_chunks = ''a'', row_n_tokens = 1, row_embeddings = Some 1\<rparr>,
          \<lparr>row_chunks = ''bb'', row_n_tokens = 1, row_embeddings = Some 2\<rparr>,
          \<lparr>row_chunks = ''ccc'', row_n_tokens = 1, row_embeddings = Some 3\<rparr>]"
proof -
  let ?df = "[\<lparr>row_chunks = ''a'', row_n_tokens = 1, row_embeddings = None\<rparr>,
       \<lparr>row_chunks = ''bb'', row_n_tokens = 1, row_embeddings = None\<rparr>,
       \<lparr>row_chunks = ''ccc'', row_n_tokens = 1, row_embeddings = (None :: nat option)\<rparr>]"
  let ?self = "\<lparr>self_text = '''', self_sequences = [], self_chunks = [], self_n_tokens = [],
        self_segments = [], self_dataframe = ?df\<rparr>"
  have schedule: "set [2, 0, 1] = {0..<length (self_dataframe ?self)}"
    by (auto simp: numeral_eq_Suc)
  from fetch_modes_agree[OF schedule, of "\<lambda>input. Inr (length input)" "\<lambda>t. [t]" "\<lambda>s. s"
      length_similarity "\<lambda>d. d" "\<lambda>c. c" 120 "8 / 10" 2]
  show ?thesis using schedule
    by (simp add: embeddings_def OpenAI_def create_embedding_def assign_embeddings_def
        numeral_2_eq_2)
qed

subsection \<open>Retries\<close>

text \<open>A client sends a request at most once more than its number of retries.\<close>

lemma attempts_bound: "attempts service input retries attempt \<le> retries + 1"
  by (induction retries arbitrary: attempt) (auto split: sum.splits)

text \<open>The client of \<^verbatim>\<open>async_embeddings\<close> sends a request at most twice.\<close>

lemma async_client_retries_once:
  "attempts service input (max_retries (AsyncOpenAI 1)) 0 \<le> 2"
  using attempts_bound[of service input 1 0] by (simp add: AsyncOpenAI_def)

text \<open>
  Claim C8 fails on \<^verbatim>\<open>embeddings\<close>: line 141 builds the client without
  \<^verbatim>\<open>max_retries\<close>, so the client has the default of the provider's library, which
  is 2. On a table of one row and a service whose first two answers are connection
  errors, the sequential fetcher sends the request three times and returns the table
  with the vector of the third answer; the concurrent fetcher, whose client is built
  with \<^verbatim>\<open>max_retries=1\<close>, sends it twice and raises the error.
\<close>

theorem sync_fetch_retries_twice:
  "attempts (fails_twice v) c (max_retries (OpenAI 2)) 0 = 3 \<and>
   embeddings 2 (fails_twice v) sents encode similarity doc_text nlp NoData max_tokens threshold
     (self\<lparr>self_dataframe := [\<lparr>row_chunks = c, row_n_tokens = n, row_embeddings = None\<rparr>]\<rparr>) =
     (Inr [\<lparr>row_chunks = c, row_n_tokens = n, row_embeddings = Some v\<rparr>],
      self\<lparr>self_dataframe := [\<lparr>row_chunks = c, row_n_tokens = n, row_embeddings = Some v\<rparr>]\<rparr>) \<and>
   attempts (fails_twice v) c (max_retries (AsyncOpenAI 1)) 0 = 2 \<and>
   async_embeddings [0] (fails_twice v) sents encode similarity doc_text nlp NoData max_tokens threshold
     (self\<lparr>self_dataframe := [\<lparr>row_chunks = c, row_n_tokens = n, row_embeddings = None\<rparr>]\<rparr>) =
     Some (Inl APIConnectionError,
           self\<lparr>self_dataframe := [\<lparr>row_chunks = c, row_n_tokens = n, row_embeddings = None\<rparr>]\<rparr>)"
  by (simp add: embeddings_def async_embeddings_def OpenAI_def AsyncOpenAI_def create_embedding_def
      assign_embeddings_def fails_twice_def retried_def gather_def numeral_2_eq_2 numeral_3_eq_3)

text \<open>
  The other half of the claim holds in both modes: a request that fails for good makes
  the fetcher raise, and no row gets an embedding.
\<close>

lemma failed_request_aborts_fetch:
  assumes "\<exists>row\<in>set (self_dataframe self).
             isl (create_embedding (OpenAI default_max_retries) service row)"
    and "\<exists>row\<in>set (self_dataframe self). isl (create_embedding (AsyncOpenAI 1) service row)"
    and "set schedule = {0..<length (self_dataframe self)}"
  shows "(\<exists>e. embeddings default_max_retries service sents encode similarity doc_text nlp NoData
                 max_tokens threshold self = (Inl e, self)) \<and>
         (\<exists>e. async_embeddings schedule service sents encode similarity doc_text nlp NoData
                 max_tokens threshold self = Some (Inl e, self))"
  using embeddings_one_fails[OF assms(1)] async_embeddings_one_fails[OF assms(2,3)]
  by blast

end
